theory Spec2Isabelle
  imports Complex_Main "HOL-Library.AList" "HOL-Library.List_Lexorder" "HOL-Library.Product_Lexorder"
begin

section \<open>Python text\<close>

text \<open>
  A Python \<open>str\<close> is a sequence of Unicode code points, so text is a list of code points
  here. \<open>lit\<close> turns an ASCII literal into such a list. The character classes below are
  the ones the source uses: the explicit ASCII ranges of its patterns (\<open>[a-zA-Z0-9]\<close>,
  \<open>[0-9]\<close>, \<open>[A-Za-z]\<close>), the Unicode class \<open>\d\<close> of the \<open>re\<close> module on \<open>str\<close>
  patterns (general category Nd, Unicode 14 as shipped with CPython 3.11: each entry of
  \<open>nd_zeros\<close> is the digit zero of a run of ten digits), and white space in the sense of
  \<open>str.strip\<close>, \<open>str.split\<close> and \<open>str.isspace\<close>.

  Two parts of Python's Unicode behaviour are modelled on ASCII only: \<open>str.lower\<close> maps
  \<open>A-Z\<close> to \<open>a-z\<close> and leaves every other code point alone, and the word characters
  of \<open>\b\<close> are the ASCII letters, the underscore and the decimal digits. The model therefore
  agrees with CPython on text whose non-ASCII characters are decimal digits or white space.
\<close>

type_synonym pystr = "nat list"

definition lit :: "string \<Rightarrow> pystr" where
  "lit s = map of_char s"

definition is_ascii_digit :: "nat \<Rightarrow> bool" where
  "is_ascii_digit c \<longleftrightarrow> 48 \<le> c \<and> c \<le> 57"

definition is_ascii_alpha :: "nat \<Rightarrow> bool" where
  "is_ascii_alpha c \<longleftrightarrow> (65 \<le> c \<and> c \<le> 90) \<or> (97 \<le> c \<and> c \<le> 122)"

definition is_ascii_alnum :: "nat \<Rightarrow> bool" where
  "is_ascii_alnum c \<longleftrightarrow> is_ascii_alpha c \<or> is_ascii_digit c"

definition nd_zeros :: "nat list" where
  "nd_zeros = [48, 1632, 1776, 1984, 2406, 2534, 2662, 2790, 2918, 3046, 3174, 3302, 3430,
     3558, 3664, 3792, 3872, 4160, 4240, 6112, 6160, 6470, 6608, 6784, 6800, 6992, 7088,
     7232, 7248, 42528, 43216, 43264, 43472, 43504, 43600, 44016, 65296, 66720, 68912,
     69734, 69872, 69942, 70096, 70384, 70736, 70864, 71248, 71360, 71472, 71904, 72016,
     72784, 73040, 73120, 92768, 92864, 93008, 120782, 120792, 120802, 120812, 120822,
     123200, 123632, 125264, 130032]"

definition is_decimal :: "nat \<Rightarrow> bool" where
  "is_decimal c \<longleftrightarrow> list_ex (\<lambda>z. z \<le> c \<and> c < z + 10) nd_zeros"

definition decimal_value :: "nat \<Rightarrow> nat" where
  "decimal_value c = (case find (\<lambda>z. z \<le> c \<and> c < z + 10) nd_zeros of
      Some z \<Rightarrow> c - z | None \<Rightarrow> 0)"

definition is_space :: "nat \<Rightarrow> bool" where
  "is_space c \<longleftrightarrow> (9 \<le> c \<and> c \<le> 13) \<or> (28 \<le> c \<and> c \<le> 32) \<or> c = 133 \<or> c = 160
     \<or> c = 5760 \<or> (8192 \<le> c \<and> c \<le> 8202) \<or> c = 8232 \<or> c = 8233 \<or> c = 8239
     \<or> c = 8287 \<or> c = 12288"

definition is_word :: "nat \<Rightarrow> bool" where
  "is_word c \<longleftrightarrow> is_ascii_alpha c \<or> c = 95 \<or> is_decimal c"

definition lower_char :: "nat \<Rightarrow> nat" where
  "lower_char c = (if 65 \<le> c \<and> c \<le> 90 then c + 32 else c)"

definition lower :: "pystr \<Rightarrow> pystr" where
  "lower s = map lower_char s"

text \<open>\<open>s.strip(chars)\<close>, with the set of characters to remove as a predicate.\<close>

definition strip_with :: "(nat \<Rightarrow> bool) \<Rightarrow> pystr \<Rightarrow> pystr" where
  "strip_with p s = rev (dropWhile p (rev (dropWhile p s)))"

definition strip :: "pystr \<Rightarrow> pystr" where
  "strip s = strip_with is_space s"

text \<open>
  \<open>re.sub(p+, "_", s)\<close> for a character class \<open>p\<close>: every maximal run of characters
  of the class becomes one underscore. The flag says whether the previous character was
  part of a run.
\<close>

primrec sub_runs :: "(nat \<Rightarrow> bool) \<Rightarrow> bool \<Rightarrow> pystr \<Rightarrow> pystr" where
  "sub_runs p in_run [] = []"
| "sub_runs p in_run (c # cs) =
     (if p c then (if in_run then sub_runs p True cs else 95 # sub_runs p True cs)
      else c # sub_runs p False cs)"

text \<open>Decimal notation of integers: Python's \<open>str(int)\<close>.\<close>

fun show_nat :: "nat \<Rightarrow> pystr" where
  "show_nat n = (if n < 10 then [48 + n] else show_nat (n div 10) @ [48 + n mod 10])"

declare show_nat.simps [simp del]

definition show_int :: "int \<Rightarrow> pystr" where
  "show_int i = (if i < 0 then 45 # show_nat (nat (- i)) else show_nat (nat i))"


section \<open>Python numbers\<close>

text \<open>
  A Python \<open>float\<close> is an IEEE 754 double. A finite double is a rational number, so
  \<open>Fin\<close> carries its exact value; the two zeros are one value (they are equal in Python).
  \<open>round_double\<close> rounds a rational to the nearest double, ties to even, with 53 bits of
  precision, gradual underflow below \<open>2\<^sup>-\<^sup>1\<^sup>0\<^sup>2\<^sup>2\<close> and overflow to infinity from \<open>2\<^sup>1\<^sup>0\<^sup>2\<^sup>4\<close>.
\<close>

datatype pyfloat = Fin rat | PosInf | NegInf | NaN

definition pow_int :: "rat \<Rightarrow> int \<Rightarrow> rat" where
  "pow_int b d = (if 0 \<le> d then b ^ nat d else 1 / b ^ nat (- d))"

text \<open>
  \<open>ndigits b n\<close> is the number of digits of \<open>n\<close> in base \<open>b\<close> (none for zero), and
  \<open>ilog b q\<close> the integer part of the logarithm of \<open>q > 0\<close> to the base \<open>b\<close>.
\<close>

function ndigits :: "nat \<Rightarrow> nat \<Rightarrow> nat" where
  "ndigits b n = (if n = 0 \<or> b < 2 then 0 else Suc (ndigits b (n div b)))"
  by pat_completeness auto
termination
  by (relation "measure snd") auto

declare ndigits.simps [simp del]

definition ilog :: "nat \<Rightarrow> rat \<Rightarrow> int" where
  "ilog b q = (if 1 \<le> q then int (ndigits b (nat \<lfloor>q\<rfloor>)) - 1
               else - int (ndigits b (nat (\<lceil>1 / q\<rceil> - 1))))"

definition round_half_even :: "rat \<Rightarrow> int" where
  "round_half_even r = (let f = \<lfloor>r\<rfloor>; d = r - of_int f in
     if d < 1 / 2 then f else if 1 / 2 < d then f + 1 else if even f then f else f + 1)"

definition round_double :: "rat \<Rightarrow> pyfloat" where
  "round_double q = (if q = 0 then Fin 0 else
     let a = \<bar>q\<bar>;
         e = max (ilog 2 a) (- 1022);
         ulp = pow_int 2 (e - 52);
         r = of_int (round_half_even (a / ulp)) * ulp
     in if pow_int 2 1024 \<le> r then (if q < 0 then NegInf else PosInf)
        else Fin (if q < 0 then - r else r))"

text \<open>
  \<open>repr\<close> of a float (which is what \<open>str\<close> gives): the shortest decimal numeral that
  rounds back to the float, the closest one when there are several; printed with an
  exponent when the decimal point would stand before the fourth leading zero or after the
  sixteenth digit.
\<close>

definition shortest_digits :: "rat \<Rightarrow> nat \<times> nat \<times> int" where
  "shortest_digits x = (let decpt = ilog 10 x + 1;
     cand = (\<lambda>n. let scale = pow_int 10 (decpt - int n);
                      lo = \<lfloor>x / scale\<rfloor>;
                      okl = (0 < lo \<and> round_double (of_int lo * scale) = Fin x);
                      okh = (round_double (of_int (lo + 1) * scale) = Fin x);
                      dl = x - of_int lo * scale;
                      dh = of_int (lo + 1) * scale - x
                  in if okl \<and> okh then Some (if dl < dh \<or> (dl = dh \<and> even lo) then lo else lo + 1)
                     else if okl then Some lo else if okh then Some (lo + 1) else None)
     in case List.map_filter (\<lambda>n. map_option (\<lambda>D. (nat D, n)) (cand n)) [1 ..< 18] of
          (D, n) # _ \<Rightarrow> (D, n, decpt)
        | [] \<Rightarrow> (nat \<lfloor>x / pow_int 10 (decpt - 17)\<rfloor>, 17, decpt))"

definition repr_pos :: "rat \<Rightarrow> pystr" where
  "repr_pos x = (let (D, n, decpt0) = shortest_digits x;
       full = show_nat D;
       decpt = (if n < length full then decpt0 + 1 else decpt0);
       ds = rev (dropWhile (\<lambda>c. c = 48) (rev full));
       k = int (length ds)
     in if decpt \<le> - 4 \<or> 16 < decpt then
          (let e = decpt - 1; ex = show_nat (nat \<bar>e\<bar>) in
           hd ds # (if 1 < length ds then 46 # tl ds else [])
             @ [101, if e < 0 then 45 else 43] @ (if length ex < 2 then 48 # ex else ex))
        else if decpt \<le> 0 then [48, 46] @ replicate (nat (- decpt)) 48 @ ds
        else if k \<le> decpt then ds @ replicate (nat (decpt - k)) 48 @ [46, 48]
        else take (nat decpt) ds @ [46] @ drop (nat decpt) ds)"

fun float_repr :: "pyfloat \<Rightarrow> pystr" where
  "float_repr NaN = lit ''nan''"
| "float_repr PosInf = lit ''inf''"
| "float_repr NegInf = lit ''-inf''"
| "float_repr (Fin r) = (if r = 0 then lit ''0.0''
                         else if r < 0 then 45 # repr_pos (- r) else repr_pos r)"

section \<open>Cell values\<close>

text \<open>
  The values a spreadsheet cell or a row field holds: \<open>None\<close>, a string, an integer or a
  float (pandas reads an empty cell as the float NaN). \<open>py_str\<close> is Python's \<open>str()\<close>.
\<close>

datatype pyval = PNone | PStr pystr | PInt int | PFloat pyfloat

fun py_str :: "pyval \<Rightarrow> pystr" where
  "py_str PNone = lit ''None''"
| "py_str (PStr s) = s"
| "py_str (PInt i) = show_int i"
| "py_str (PFloat f) = float_repr f"


text \<open>
  \<open>float(x)\<close>. A string is first brought to ASCII (a Unicode decimal digit becomes the
  ASCII digit of its value, Unicode white space a blank, any other non-ASCII character
  \<open>?\<close>), stripped of ASCII white space and freed of the underscores that stand between
  two digits; what is left must be \<open>[sign] (inf | infinity | nan)\<close> or a decimal numeral
  \<open>[sign] digits [. digits] [e [sign] digits]\<close> with at least one digit before the
  exponent. The value is rounded to a double; a numeral beyond the range gives an
  infinity. \<open>None\<close> stands for the exception (\<open>ValueError\<close>, \<open>TypeError\<close>,
  \<open>OverflowError\<close>) Python raises.
\<close>

definition to_ascii_number :: "pystr \<Rightarrow> pystr" where
  "to_ascii_number s = map (\<lambda>c. if c < 128 then c else if is_space c then 32
       else if is_decimal c then 48 + decimal_value c else 63) s"

definition is_ascii_space :: "nat \<Rightarrow> bool" where
  "is_ascii_space c \<longleftrightarrow> (9 \<le> c \<and> c \<le> 13) \<or> c = 32"

primrec remove_underscores :: "nat \<Rightarrow> pystr \<Rightarrow> pystr option" where
  "remove_underscores prev [] = (if prev = 95 then None else Some [])"
| "remove_underscores prev (c # cs) =
     (if c = 95 then (if is_ascii_digit prev then remove_underscores c cs else None)
      else if prev = 95 \<and> \<not> is_ascii_digit c then None
      else map_option ((#) c) (remove_underscores c cs))"

definition split_sign :: "pystr \<Rightarrow> bool \<times> pystr" where
  "split_sign s = (case s of [] \<Rightarrow> (False, [])
     | c # cs \<Rightarrow> if c = 45 then (True, cs) else if c = 43 then (False, cs) else (False, s))"

definition digits_value :: "pystr \<Rightarrow> nat" where
  "digits_value ds = foldl (\<lambda>a c. 10 * a + (c - 48)) 0 ds"

definition parse_exponent :: "pystr \<Rightarrow> int option" where
  "parse_exponent s = (case s of [] \<Rightarrow> Some 0
     | c # cs \<Rightarrow>
         if c = 101 \<or> c = 69 then
           (let (neg, ds) = split_sign cs in
            if ds \<noteq> [] \<and> list_all is_ascii_digit ds
            then Some (if neg then - int (digits_value ds) else int (digits_value ds))
            else None)
         else None)"

definition parse_float_ascii :: "pystr \<Rightarrow> pyfloat option" where
  "parse_float_ascii s = (let (neg, body) = split_sign s; low = lower body in
     if low = lit ''inf'' \<or> low = lit ''infinity'' then Some (if neg then NegInf else PosInf)
     else if low = lit ''nan'' then Some NaN
     else
       let ip = takeWhile is_ascii_digit body;
           r1 = dropWhile is_ascii_digit body;
           (fp, r2) = (case r1 of [] \<Rightarrow> ([], [])
              | c # cs \<Rightarrow> if c = 46 then (takeWhile is_ascii_digit cs, dropWhile is_ascii_digit cs)
                         else ([], r1))
       in if ip = [] \<and> fp = [] then None
          else (case parse_exponent r2 of None \<Rightarrow> None
                | Some e \<Rightarrow>
                    let m = of_nat (digits_value (ip @ fp)) * pow_int 10 (e - int (length fp))
                    in Some (round_double (if neg then - m else m))))"

definition float_of_str :: "pystr \<Rightarrow> pyfloat option" where
  "float_of_str s = (let a = strip_with is_ascii_space (to_ascii_number s) in
     if a = [] then None
     else case remove_underscores 0 a of None \<Rightarrow> None | Some b \<Rightarrow> parse_float_ascii b)"

fun py_float :: "pyval \<Rightarrow> pyfloat option" where
  "py_float PNone = None"
| "py_float (PStr s) = float_of_str s"
| "py_float (PInt i) = (case round_double (of_int i) of Fin r \<Rightarrow> Some (Fin r) | _ \<Rightarrow> None)"
| "py_float (PFloat f) = Some f"

text \<open>\<open>int(f)\<close> of a float truncates towards zero and raises on an infinity or NaN.\<close>

fun int_of_float :: "pyfloat \<Rightarrow> int option" where
  "int_of_float (Fin r) = Some (if 0 \<le> r then \<lfloor>r\<rfloor> else \<lceil>r\<rceil>)"
| "int_of_float _ = None"

section \<open>Normalizer and alias table (main.py)\<close>

text \<open>
  \<^verbatim>\<open>
  def _normalize_column_name(name: str) -> str:
      normalized = re.sub(r"[^a-zA-Z0-9]+", "_", str(name).strip().lower())
      return re.sub(r"_+", "_", normalized).strip("_")
  \<close>
\<close>

definition normalize_column_name :: "pyval \<Rightarrow> pystr" where
  "normalize_column_name name =
     (let normalized = sub_runs (\<lambda>c. \<not> is_ascii_alnum c) False (lower (strip (py_str name)))
      in strip_with (\<lambda>c. c = 95) (sub_runs (\<lambda>c. c = 95) False normalized))"

text \<open>
  \<^verbatim>\<open>
  def _clean_nan(value):
      if isinstance(value, float) and math.isnan(value):
          return None
      if isinstance(value, str):
          value = value.strip()
          return value or None
      return value
  \<close>
\<close>

fun clean_nan :: "pyval \<Rightarrow> pyval" where
  "clean_nan (PFloat NaN) = PNone"
| "clean_nan (PStr s) = (let value = strip s in if value = [] then PNone else PStr value)"
| "clean_nan value = value"

text \<open>
  \<open>REQUIRED_FIELDS\<close> (validator.py) and \<open>FIELD_ALIASES\<close>. The alias sets are written as
  lists in the order of the source; Python iterates over a set in an order of its own.
\<close>

definition REQUIRED_FIELDS :: "pystr list" where
  "REQUIRED_FIELDS = [lit ''loaner_id'', lit ''fullname'', lit ''mobile_no'',
     lit ''loaner_adhar'', lit ''total_amount'', lit ''total_land'', lit ''descrition'']"

definition FIELD_ALIASES :: "(pystr \<times> pystr list) list" where
  "FIELD_ALIASES = [
     (lit ''loaner_id'', [lit ''loaner_id'', lit ''loanerid'', lit ''id'', lit ''app_id'',
        lit ''application_id'']),
     (lit ''fullname'', [lit ''fullname'', lit ''full_name'', lit ''name'', lit ''customer_name'']),
     (lit ''mobile_no'', [lit ''mobile_no'', lit ''mobile'', lit ''mobile_number'', lit ''phone'',
        lit ''phone_no'']),
     (lit ''loaner_adhar'', [lit ''loaner_adhar'', lit ''loaner_aadhar'', lit ''aadhar'',
        lit ''aadhaar'', lit ''adhar_no'']),
     (lit ''total_amount'', [lit ''total_amount'', lit ''amount'', lit ''loan_amount'',
        lit ''total_loan_amount'']),
     (lit ''total_land'', [lit ''total_land'', lit ''land'', lit ''land_size'', lit ''land_area'']),
     (lit ''descrition'', [lit ''descrition'', lit ''description'', lit ''purpose'', lit ''remarks''])]"

text \<open>
  \<^verbatim>\<open>
  def _build_alias_to_field():
      alias_to_field = {}
      for field, aliases in FIELD_ALIASES.items():
          for alias in aliases:
              alias_to_field[_normalize_column_name(alias)] = field
      return alias_to_field

  ALIAS_TO_FIELD = _build_alias_to_field()
  \<close>
  A dictionary is an association list: \<open>AList.update\<close> overwrites the value of a key that
  is present and appends a new key, as assignment to a \<open>dict\<close> does; \<open>map_of\<close> looks a
  key up.
\<close>

definition build_alias_to_field_from :: "(pystr \<times> pystr list) list \<Rightarrow> (pystr \<times> pystr) list" where
  "build_alias_to_field_from table =
     fold (\<lambda>(field, aliases) alias_to_field.
             fold (\<lambda>alias. AList.update (normalize_column_name (PStr alias)) field)
               aliases alias_to_field)
       table []"

definition build_alias_to_field :: "(pystr \<times> pystr) list" where
  "build_alias_to_field = build_alias_to_field_from FIELD_ALIASES"

definition ALIAS_TO_FIELD :: "(pystr \<times> pystr) list" where
  "ALIAS_TO_FIELD = build_alias_to_field"

section \<open>Direct mapper (main.py)\<close>

text \<open>
  A parsed table (\<open>pd.DataFrame\<close>) is its column labels and its rows, every row as long
  as the list of columns. pandas gives the columns of a sheet distinct labels.
\<close>

record dataframe =
  columns :: "pyval list"
  rows :: "pyval list list"

type_synonym row = "(pystr \<times> pyval) list"

text \<open>\<open>d.get(key)\<close> on a dictionary: the value, or \<open>None\<close> for a missing key.\<close>

definition get :: "('k \<times> pyval) list \<Rightarrow> 'k \<Rightarrow> pyval" where
  "get d key = (case map_of d key of None \<Rightarrow> PNone | Some v \<Rightarrow> v)"

definition startswith :: "pystr \<Rightarrow> pystr \<Rightarrow> bool" where
  "startswith s p \<longleftrightarrow> take (length p) s = p"

definition endswith :: "pystr \<Rightarrow> pystr \<Rightarrow> bool" where
  "endswith s p \<longleftrightarrow> length p \<le> length s \<and> drop (length s - length p) s = p"

text \<open>
  \<^verbatim>\<open>
  def _resolve_field_mapping(df: pd.DataFrame):
      normalized_to_actual = {}
      for col in df.columns:
          normalized = _normalize_column_name(col)
          if not normalized.startswith("unnamed"):
              normalized_to_actual[normalized] = col

      field_to_column = {}
      for field in REQUIRED_FIELDS:
          candidates = FIELD_ALIASES.get(field, {field})
          matched_col = None
          for alias in candidates:
              alias_normalized = _normalize_column_name(alias)
              if alias_normalized in normalized_to_actual:
                  matched_col = normalized_to_actual[alias_normalized]
                  break
          if matched_col is None:
              return None
          field_to_column[field] = matched_col
      return field_to_column
  \<close>
  The three loops are \<open>normalized_to_actual\<close>, \<open>match_column\<close> (the inner loop with its
  \<open>break\<close>) and \<open>resolve_fields\<close> (the outer loop with its early \<open>return None\<close>).
\<close>

definition normalized_to_actual :: "pyval list \<Rightarrow> (pystr \<times> pyval) list" where
  "normalized_to_actual cols =
     fold (\<lambda>col acc. let normalized = normalize_column_name col in
             if \<not> startswith normalized (lit ''unnamed'')
             then AList.update normalized col acc else acc)
       cols []"

definition candidates_of :: "pystr \<Rightarrow> pystr list" where
  "candidates_of field = (case map_of FIELD_ALIASES field of None \<Rightarrow> [field] | Some aliases \<Rightarrow> aliases)"

fun match_column :: "(pystr \<times> pyval) list \<Rightarrow> pystr list \<Rightarrow> pyval" where
  "match_column n2a [] = PNone"
| "match_column n2a (alias # candidates) =
     (case map_of n2a (normalize_column_name (PStr alias)) of
        Some col \<Rightarrow> col
      | None \<Rightarrow> match_column n2a candidates)"

fun resolve_fields :: "(pystr \<times> pyval) list \<Rightarrow> pystr list \<Rightarrow> row \<Rightarrow> row option" where
  "resolve_fields n2a [] field_to_column = Some field_to_column"
| "resolve_fields n2a (field # rest) field_to_column =
     (let matched_col = match_column n2a (candidates_of field) in
      if matched_col = PNone then None
      else resolve_fields n2a rest (AList.update field matched_col field_to_column))"

definition resolve_field_mapping :: "dataframe \<Rightarrow> row option" where
  "resolve_field_mapping df =
     resolve_fields (normalized_to_actual (columns df)) REQUIRED_FIELDS []"

section \<open>Header locator (main.py)\<close>

text \<open>
  \<^verbatim>\<open>
  def _detect_header_row(file_bytes: bytes, max_rows: int = 15):
      probe_df = pd.read_excel(BytesIO(file_bytes), header=None)
      check_rows = min(len(probe_df.index), max_rows)
      best_idx = None
      best_score = 0
      for i in range(check_rows):
          raw_cells = probe_df.iloc[i].tolist()
          normalized = {
              _normalize_column_name(cell)
              for cell in raw_cells
              if cell is not None and str(cell).strip()
          }
          matched_fields = {ALIAS_TO_FIELD[n] for n in normalized if n in ALIAS_TO_FIELD}
          score = len(matched_fields)
          if score > best_score:
              best_score = score
              best_idx = i
          if score == len(REQUIRED_FIELDS):
              return i
      if best_score >= 4:
          return best_idx
      return None
  \<close>
  The function takes the rows of the headerless parse (\<open>probe_df\<close>), which pandas reads
  from the bytes. The two sets are lists without duplicates, \<open>len\<close> their length.
\<close>

definition row_score :: "pyval list \<Rightarrow> nat" where
  "row_score raw_cells =
     (let normalized = remdups (map normalize_column_name
            (filter (\<lambda>cell. cell \<noteq> PNone \<and> strip (py_str cell) \<noteq> []) raw_cells));
          matched_fields = remdups (List.map_filter (map_of ALIAS_TO_FIELD) normalized)
      in length matched_fields)"

fun detect_loop :: "pyval list list \<Rightarrow> nat \<Rightarrow> nat option \<Rightarrow> nat \<Rightarrow> nat option" where
  "detect_loop [] i best_idx best_score = (if 4 \<le> best_score then best_idx else None)"
| "detect_loop (raw_cells # rest) i best_idx best_score =
     (let score = row_score raw_cells;
          best_idx' = (if best_score < score then Some i else best_idx);
          best_score' = (if best_score < score then score else best_score)
      in if score = length REQUIRED_FIELDS then Some i
         else detect_loop rest (Suc i) best_idx' best_score')"

definition detect_header_row_upto :: "pyval list list \<Rightarrow> nat \<Rightarrow> nat option" where
  "detect_header_row_upto probe_df max_rows =
     (let check_rows = min (length probe_df) max_rows in
      detect_loop (take check_rows probe_df) 0 None 0)"

definition detect_header_row :: "pyval list list \<Rightarrow> nat option" where
  "detect_header_row probe_df = detect_header_row_upto probe_df 15"

section \<open>Projection of a mapped table and content classifier (main.py)\<close>

text \<open>\<open>df.dropna(how="all")\<close> drops the rows all of whose cells are missing.\<close>

definition is_na :: "pyval \<Rightarrow> bool" where
  "is_na v \<longleftrightarrow> v = PNone \<or> v = PFloat NaN"

definition dropna_all :: "pyval list list \<Rightarrow> pyval list list" where
  "dropna_all rs = filter (\<lambda>r. \<not> list_all is_na r) rs"

text \<open>
  \<^verbatim>\<open>
  def _extract_direct_rows(df: pd.DataFrame):
      df = df.dropna(how="all")
      field_to_column = _resolve_field_mapping(df)
      if field_to_column is None:
          return None

      selected_cols = [field_to_column[field] for field in REQUIRED_FIELDS]
      direct_rows = []
      for record in df[selected_cols].to_dict(orient="records"):
          direct_row = {}
          for field, col in zip(REQUIRED_FIELDS, selected_cols):
              direct_row[field] = _clean_nan(record.get(col))
          direct_rows.append(direct_row)
      return direct_rows
  \<close>
\<close>

definition extract_direct_rows :: "dataframe \<Rightarrow> row list option" where
  "extract_direct_rows df0 =
     (let df = df0\<lparr>rows := dropna_all (rows df0)\<rparr> in
      case resolve_field_mapping df of
        None \<Rightarrow> None
      | Some field_to_column \<Rightarrow>
          let selected_cols = map (get field_to_column) REQUIRED_FIELDS in
          Some (map (\<lambda>r. let record = zip (columns df) r in
                       map (\<lambda>(field, col). (field, clean_nan (get record col)))
                         (zip REQUIRED_FIELDS selected_cols))
                  (rows df)))"

text \<open>
  The patterns of the classifier, each written for the text it is applied to.
  \<open>search_land\<close> is \<open>re.search(r"\b(acre|acres|hectare|hectares|ha)\b", lower)\<close>: the
  flag says whether the character before the position is a word character; the words
  begin and end with a letter, so \<open>\b\<close> holds before one exactly when no word character
  precedes it, and after one exactly when no word character follows.
  \<open>before_final_newline\<close> serves \<open>$\<close>, which matches at the end of the text and
  before a newline that ends it.
\<close>

definition land_units :: "pystr list" where
  "land_units = [lit ''acre'', lit ''acres'', lit ''hectare'', lit ''hectares'', lit ''ha'']"

fun search_land :: "bool \<Rightarrow> pystr \<Rightarrow> bool" where
  "search_land prev [] = False"
| "search_land prev (c # cs) =
     ((\<not> prev \<and> list_ex (\<lambda>w. startswith (c # cs) w \<and>
          (case drop (length w) (c # cs) of [] \<Rightarrow> True | d # _ \<Rightarrow> \<not> is_word d)) land_units)
      \<or> search_land (is_word c) cs)"

definition before_final_newline :: "pystr \<Rightarrow> pystr" where
  "before_final_newline s = (if s \<noteq> [] \<and> last s = 10 then butlast s else s)"

text \<open>\<open>re.match(r"^[A-Za-z]{1,5}[-_ ]?\d{1,}$", text)\<close>\<close>

definition matches_loaner_id :: "pystr \<Rightarrow> bool" where
  "matches_loaner_id text =
     (let letters = takeWhile is_ascii_alpha text;
          r = dropWhile is_ascii_alpha text;
          r' = (case r of [] \<Rightarrow> [] | c # cs \<Rightarrow> if c = 45 \<or> c = 95 \<or> c = 32 then cs else r);
          body = before_final_newline r'
      in 1 \<le> length letters \<and> length letters \<le> 5 \<and> body \<noteq> [] \<and> list_all is_decimal body)"

text \<open>\<open>re.fullmatch(r"\d+(\.\d+)?", text)\<close>\<close>

definition matches_numeric :: "pystr \<Rightarrow> bool" where
  "matches_numeric text =
     (let ip = takeWhile is_decimal text; r = dropWhile is_decimal text in
      ip \<noteq> [] \<and> (case r of [] \<Rightarrow> True | c # fp \<Rightarrow> c = 46 \<and> fp \<noteq> [] \<and> list_all is_decimal fp))"

text \<open>\<open>len(s.split())\<close>: the number of maximal runs of characters that are not white space.\<close>

primrec word_count :: "bool \<Rightarrow> pystr \<Rightarrow> nat" where
  "word_count in_word [] = 0"
| "word_count in_word (c # cs) =
     (if is_space c then word_count False cs
      else (if in_word then 0 else 1) + word_count True cs)"

text \<open>\<open>max(xs, key=len)\<close> keeps the first of the longest elements.\<close>

primrec longest :: "pystr \<Rightarrow> pystr list \<Rightarrow> pystr" where
  "longest best [] = best"
| "longest best (x # xs) = longest (if length best < length x then x else best) xs"

text \<open>Comparisons of a float with a number, and \<open>n.is_integer()\<close>.\<close>

fun float_ge :: "pyfloat \<Rightarrow> rat \<Rightarrow> bool" where
  "float_ge (Fin r) q = (q \<le> r)"
| "float_ge PosInf q = True"
| "float_ge NegInf q = False"
| "float_ge NaN q = False"

fun float_lt :: "pyfloat \<Rightarrow> rat \<Rightarrow> bool" where
  "float_lt (Fin r) q = (r < q)"
| "float_lt PosInf q = False"
| "float_lt NegInf q = True"
| "float_lt NaN q = False"

fun float_gt :: "pyfloat \<Rightarrow> rat \<Rightarrow> bool" where
  "float_gt (Fin r) q = (q < r)"
| "float_gt PosInf q = True"
| "float_gt NegInf q = False"
| "float_gt NaN q = False"

fun is_integer :: "pyfloat \<Rightarrow> bool" where
  "is_integer (Fin r) = (of_int \<lfloor>r\<rfloor> = r)"
| "is_integer _ = False"

text \<open>
  \<^verbatim>\<open>
  def _extract_rows_by_content(df: pd.DataFrame):
      df = df.dropna(how="all")
      inferred_rows = []
      for idx, row in enumerate(df.itertuples(index=False), start=1):
          values = [_clean_nan(v) for v in row if _clean_nan(v) is not None]
          if not values:
              continue

          inferred = {field: None for field in REQUIRED_FIELDS}
          text_candidates = []
          numeric_candidates = []

          for value in values:
              text = str(value).strip()
              digits = re.sub(r"\D", "", text)
              lower = text.lower()

              if inferred["total_land"] is None and re.search(r"\b(acre|acres|hectare|hectares|ha)\b", lower):
                  inferred["total_land"] = text
                  continue

              if inferred["loaner_adhar"] is None and len(digits) == 12:
                  inferred["loaner_adhar"] = digits
                  continue

              if (
                  inferred["mobile_no"] is None
                  and len(digits) == 10
                  and digits[0] in {"6", "7", "8", "9"}
              ):
                  inferred["mobile_no"] = digits
                  continue

              if re.match(r"^[A-Za-z]{1,5}[-_ ]?\d{1,}$", text) and inferred["loaner_id"] is None:
                  inferred["loaner_id"] = text.replace(" ", "")
                  continue

              if re.fullmatch(r"\d+(\.\d+)?", text):
                  numeric_candidates.append(text)
              else:
                  text_candidates.append(text)

          if text_candidates:
              inferred["descrition"] = max(text_candidates, key=len)
              for candidate in text_candidates:
                  if candidate != inferred["descrition"] and len(candidate.split()) <= 4:
                      inferred["fullname"] = candidate
                      break

          for candidate in numeric_candidates:
              try:
                  n = float(candidate)
              except ValueError:
                  continue
              if inferred["total_amount"] is None and n >= 1000:
                  inferred["total_amount"] = n
              if inferred["loaner_id"] is None and n.is_integer() and 0 < n < 10_000:
                  inferred["loaner_id"] = str(int(n))

          if inferred["loaner_id"] is None:
              inferred["loaner_id"] = f"TEMP{idx}"

          inferred_rows.append(inferred)

      return inferred_rows if inferred_rows else None
  \<close>
  \<open>scan\<close> is the state of the loop over the values of one row; \<open>classify_value\<close> is
  one turn of it, \<open>assign_text\<close> and \<open>assign_numeric\<close> are the two passes over the
  candidates and \<open>classify_rows\<close> the loop over the rows, counting from \<open>idx\<close>.
  \<open>re.sub(r"\D", "", text)\<close> keeps the characters of \<open>text\<close> that \<open>\d\<close> matches.
\<close>

record scan =
  inferred :: row
  text_candidates :: "pystr list"
  numeric_candidates :: "pystr list"

definition classify_value :: "scan \<Rightarrow> pyval \<Rightarrow> scan" where
  "classify_value st v =
     (let text = strip (py_str v);
          digits = filter is_decimal text;
          low = lower text;
          dict = inferred st
      in if get dict (lit ''total_land'') = PNone \<and> search_land False low
           then st\<lparr>inferred := AList.update (lit ''total_land'') (PStr text) dict\<rparr>
         else if get dict (lit ''loaner_adhar'') = PNone \<and> length digits = 12
           then st\<lparr>inferred := AList.update (lit ''loaner_adhar'') (PStr digits) dict\<rparr>
         else if get dict (lit ''mobile_no'') = PNone \<and> length digits = 10
                 \<and> (case digits of [] \<Rightarrow> False | d # _ \<Rightarrow> d \<in> {54, 55, 56, 57})
           then st\<lparr>inferred := AList.update (lit ''mobile_no'') (PStr digits) dict\<rparr>
         else if matches_loaner_id text \<and> get dict (lit ''loaner_id'') = PNone
           then st\<lparr>inferred := AList.update (lit ''loaner_id'')
                  (PStr (filter (\<lambda>c. c \<noteq> 32) text)) dict\<rparr>
         else if matches_numeric text
           then st\<lparr>numeric_candidates := numeric_candidates st @ [text]\<rparr>
         else st\<lparr>text_candidates := text_candidates st @ [text]\<rparr>)"

definition assign_text :: "pystr list \<Rightarrow> row \<Rightarrow> row" where
  "assign_text cands dict =
     (case cands of [] \<Rightarrow> dict
      | c # cs \<Rightarrow>
          (let descr = longest c cs;
               dict1 = AList.update (lit ''descrition'') (PStr descr) dict
           in (case find (\<lambda>candidate. candidate \<noteq> descr \<and> word_count False candidate \<le> 4) cands of
                 None \<Rightarrow> dict1
               | Some candidate \<Rightarrow> AList.update (lit ''fullname'') (PStr candidate) dict1)))"

definition assign_numeric_step :: "pystr \<Rightarrow> row \<Rightarrow> row" where
  "assign_numeric_step candidate dict =
     (case float_of_str candidate of
        None \<Rightarrow> dict
      | Some n \<Rightarrow>
          let dict1 = (if get dict (lit ''total_amount'') = PNone \<and> float_ge n 1000
                      then AList.update (lit ''total_amount'') (PFloat n) dict else dict)
          in if get dict1 (lit ''loaner_id'') = PNone \<and> is_integer n \<and> float_gt n 0 \<and> float_lt n 10000
             then (case int_of_float n of
                     Some i \<Rightarrow> AList.update (lit ''loaner_id'') (PStr (show_int i)) dict1
                   | None \<Rightarrow> dict1)
             else dict1)"

definition classify_row :: "nat \<Rightarrow> pyval list \<Rightarrow> row" where
  "classify_row idx vals =
     (let st = fold (\<lambda>v st. classify_value st v) vals
                 \<lparr>inferred = map (\<lambda>field. (field, PNone)) REQUIRED_FIELDS,
                  text_candidates = [], numeric_candidates = []\<rparr>;
          dict1 = assign_text (text_candidates st) (inferred st);
          dict2 = fold assign_numeric_step (numeric_candidates st) dict1
      in if get dict2 (lit ''loaner_id'') = PNone
         then AList.update (lit ''loaner_id'') (PStr (lit ''TEMP'' @ show_nat idx)) dict2
         else dict2)"

fun classify_rows :: "nat \<Rightarrow> pyval list list \<Rightarrow> row list" where
  "classify_rows idx [] = []"
| "classify_rows idx (r # rest) =
     (let vals = filter (\<lambda>v. v \<noteq> PNone) (map clean_nan r) in
      if vals = [] then classify_rows (Suc idx) rest
      else classify_row idx vals # classify_rows (Suc idx) rest)"

definition extract_rows_by_content :: "dataframe \<Rightarrow> row list option" where
  "extract_rows_by_content df =
     (let inferred_rows = classify_rows 1 (dropna_all (rows df)) in
      if inferred_rows = [] then None else Some inferred_rows)"

section \<open>Row validator (validator.py)\<close>

text \<open>
  \<^verbatim>\<open>
  def validate_and_clean(data_list):
      cleaned = []
      for row in data_list:
          clean_row = {}
          for field in REQUIRED_FIELDS:
              clean_row[field] = row.get(field)
          try:
              if clean_row["total_amount"] is not None:
                  clean_row["total_amount"] = float(clean_row["total_amount"])
          except:
              clean_row["total_amount"] = None
          if clean_row["mobile_no"]:
              if not re.match(r"^[6-9][0-9]{9}$", str(clean_row["mobile_no"])):
                  clean_row["mobile_no"] = None
          if clean_row["loaner_adhar"]:
              if not re.match(r"^[0-9]{12}$", str(clean_row["loaner_adhar"])):
                  clean_row["loaner_adhar"] = None
          cleaned.append(clean_row)
      return cleaned
  \<close>
  \<open>truthy\<close> is the truth value Python gives a value in a condition; \<open>at_line_end\<close> is
  what \<open>$\<close> accepts as the rest of the text.
\<close>

fun truthy :: "pyval \<Rightarrow> bool" where
  "truthy PNone = False"
| "truthy (PStr s) = (s \<noteq> [])"
| "truthy (PInt i) = (i \<noteq> 0)"
| "truthy (PFloat f) = (f \<noteq> Fin 0)"

definition at_line_end :: "pystr \<Rightarrow> bool" where
  "at_line_end s \<longleftrightarrow> s = [] \<or> s = [10]"

definition matches_mobile :: "pystr \<Rightarrow> bool" where
  "matches_mobile s = (case s of [] \<Rightarrow> False
     | c # cs \<Rightarrow> 54 \<le> c \<and> c \<le> 57 \<and> 9 \<le> length cs \<and> list_all is_ascii_digit (take 9 cs)
                \<and> at_line_end (drop 9 cs))"

definition matches_adhar :: "pystr \<Rightarrow> bool" where
  "matches_adhar s \<longleftrightarrow> 12 \<le> length s \<and> list_all is_ascii_digit (take 12 s) \<and> at_line_end (drop 12 s)"

definition validate_row :: "row \<Rightarrow> row" where
  "validate_row r =
     (let clean_row0 = map (\<lambda>field. (field, get r field)) REQUIRED_FIELDS;
          amount = get clean_row0 (lit ''total_amount'');
          clean_row1 = (if amount \<noteq> PNone
             then AList.update (lit ''total_amount'')
                    (case py_float amount of Some f \<Rightarrow> PFloat f | None \<Rightarrow> PNone) clean_row0
             else clean_row0);
          mobile = get clean_row1 (lit ''mobile_no'');
          clean_row2 = (if truthy mobile \<and> \<not> matches_mobile (py_str mobile)
             then AList.update (lit ''mobile_no'') PNone clean_row1 else clean_row1);
          adhar = get clean_row2 (lit ''loaner_adhar'');
          clean_row3 = (if truthy adhar \<and> \<not> matches_adhar (py_str adhar)
             then AList.update (lit ''loaner_adhar'') PNone clean_row2 else clean_row2)
      in clean_row3)"

definition validate_and_clean :: "row list \<Rightarrow> row list" where
  "validate_and_clean data_list = map validate_row data_list"

section \<open>Identifier reconciler (main.py)\<close>

text \<open>
  \<^verbatim>\<open>
  def _ensure_loaner_id(value, index, batch_tag):
      if value is None:
          return f"AUTO{batch_tag}{index:04d}"
      text = str(value).strip()
      if not text:
          return f"AUTO{batch_tag}{index:04d}"
      if text.endswith(".0"):
          try:
              return str(int(float(text)))
          except Exception:
              return text
      return text
  \<close>
  \<open>format_04d\<close> is the format \<open>04d\<close>: the decimal numeral filled with zeros after the
  sign up to a width of four.
\<close>

definition zfill :: "nat \<Rightarrow> pystr \<Rightarrow> pystr" where
  "zfill w ds = replicate (w - length ds) 48 @ ds"

definition format_04d :: "int \<Rightarrow> pystr" where
  "format_04d i = (if i < 0 then 45 # zfill 3 (show_nat (nat (- i))) else zfill 4 (show_nat (nat i)))"

definition auto_id :: "pystr \<Rightarrow> int \<Rightarrow> pystr" where
  "auto_id batch_tag index = lit ''AUTO'' @ batch_tag @ format_04d index"

definition ensure_loaner_id :: "pyval \<Rightarrow> int \<Rightarrow> pystr \<Rightarrow> pystr" where
  "ensure_loaner_id v index batch_tag =
     (if v = PNone then auto_id batch_tag index
      else let text = strip (py_str v) in
        if text = [] then auto_id batch_tag index
        else if endswith text (lit ''.0'') then
          (case float_of_str text of
             None \<Rightarrow> text
           | Some f \<Rightarrow> (case int_of_float f of None \<Rightarrow> text | Some i \<Rightarrow> show_int i))
        else text)"

text \<open>
  \<^verbatim>\<open>
  def _loaner_sort_key(loaner_id):
      text = "" if loaner_id is None else str(loaner_id).strip()
      match = re.match(r"^([A-Za-z]+)?0*([0-9]+)$", text)
      if match:
          prefix = (match.group(1) or "").lower()
          num = int(match.group(2))
          return (0, prefix, num, text.lower())
      return (1, text.lower(), 0, text.lower())
  \<close>
  The first group takes all the leading letters, since a digit must follow it; \<open>0*\<close>
  takes the leading zeros but leaves the second group a digit. Python orders tuples
  lexicographically and strings by code point.
\<close>

definition sort_key_match :: "pystr \<Rightarrow> (pystr \<times> pystr) option" where
  "sort_key_match text =
     (let prefix = takeWhile is_ascii_alpha text;
          body = before_final_newline (dropWhile is_ascii_alpha text);
          significant = dropWhile (\<lambda>c. c = 48) body
      in if body \<noteq> [] \<and> list_all is_ascii_digit body
         then Some (prefix, if significant = [] then [48] else significant)
         else None)"

definition loaner_sort_key :: "pyval \<Rightarrow> nat \<times> pystr \<times> nat \<times> pystr" where
  "loaner_sort_key loaner_id =
     (let text = (if loaner_id = PNone then [] else strip (py_str loaner_id)) in
      case sort_key_match text of
        Some (group1, group2) \<Rightarrow> (0, lower group1, digits_value group2, lower text)
      | None \<Rightarrow> (1, lower text, 0, lower text))"

section \<open>Evaluation lemmas\<close>

text \<open>
  \<open>lit\<close> is injective, so dictionary keys written as literals are compared as strings.
  A natural number below \<open>2\<^sup>5\<^sup>3\<close> is a double: rounding leaves it alone.
\<close>

lemma lit_eq_iff [simp]: "lit a = lit b \<longleftrightarrow> a = b"
  unfolding lit_def by (rule inj_map_eq_map) (simp add: inj_on_def)

lemma ndigits_pos: "0 < n \<Longrightarrow> 0 < ndigits 2 n"
  by (subst ndigits.simps) simp

lemma ndigits_bounds: "0 < n \<Longrightarrow> 2 ^ (ndigits 2 n - 1) \<le> n \<and> n < 2 ^ ndigits 2 n"
proof (induction n rule: less_induct)
  case (less n)
  show ?case
  proof (cases "n div 2 = 0")
    case True
    with less.prems have "n = 1" by presburger
    then show ?thesis by (simp add: ndigits.simps)
  next
    case False
    then have pos: "0 < n div 2" by simp
    have lt: "n div 2 < n" using less.prems by simp
    from less.IH[OF lt pos] have ih: "2 ^ (ndigits 2 (n div 2) - 1) \<le> n div 2" "n div 2 < 2 ^ ndigits 2 (n div 2)"
      by auto
    have nd: "ndigits 2 n = Suc (ndigits 2 (n div 2))"
      using less.prems by (subst ndigits.simps) simp
    obtain k where k: "ndigits 2 (n div 2) = Suc k" using ndigits_pos[OF pos] by (cases "ndigits 2 (n div 2)") auto
    from ih k have "2 * 2 ^ k \<le> n" by simp
    moreover from ih k have "n < 2 * 2 ^ Suc k" by simp
    ultimately show ?thesis by (simp add: nd k)
  qed
qed

lemma round_half_even_int [simp]: "round_half_even (of_int k) = k"
  by (simp add: round_half_even_def)

lemma round_double_nat:
  assumes "n < 2 ^ 53"
  shows "round_double (of_nat n) = Fin (of_nat n)"
proof (cases "n = 0")
  case True
  then show ?thesis by (simp add: round_double_def)
next
  case False
  then have pos: "0 < n" by simp
  define d where "d = ndigits 2 n"
  from ndigits_bounds[OF pos] have b: "2 ^ (d - 1) \<le> n" "n < 2 ^ d" by (auto simp: d_def)
  have dpos: "0 < d" using ndigits_pos[OF pos] by (simp add: d_def)
  have "(2::nat) ^ (d - 1) < 2 ^ 53" using b(1) assms by linarith
  then have dle: "d - 1 < 53" by (simp only: power_strict_increasing_iff[of "2::nat"] one_less_numeral_iff semiring_norm)
  then have d53: "d \<le> 53" by simp
  have il: "ilog 2 (of_nat n) = int d - 1"
    using pos by (simp add: ilog_def d_def)
  define m where "m = 53 - d"
  have e: "int d - 1 - 52 = - int m" using d53 by (simp add: m_def)
  have mx: "max (int d - 1) (- 1022) = int d - 1" by simp
  have ulp: "pow_int 2 (max (ilog 2 (of_nat n)) (- 1022) - 52) = 1 / 2 ^ m"
    by (simp add: il mx e pow_int_def)
  have q: "rat_of_nat n / (1 / 2 ^ m) = of_int (int n * 2 ^ m)" by simp
  have r: "rat_of_int (round_half_even (rat_of_nat n / (1 / 2 ^ m))) * (1 / 2 ^ m) = of_nat n"
    unfolding q round_half_even_int by simp
  have big: "\<not> pow_int 2 1024 \<le> rat_of_nat n"
  proof -
    have "rat_of_nat n < 2 ^ 53" using assms by (metis of_nat_less_iff of_nat_numeral of_nat_power)
    also have "\<dots> < (2::rat) ^ 1024" by simp
    finally show ?thesis by (simp add: pow_int_def)
  qed
  have nz: "rat_of_nat n \<noteq> 0" "\<not> rat_of_nat n < 0" "\<bar>rat_of_nat n\<bar> = rat_of_nat n" using pos by auto
  show ?thesis unfolding round_double_def Let_def nz ulp r using nz big by simp
qed
lemma round_double_numeral:
  "numeral k < (2::nat) ^ 53 \<Longrightarrow> round_double (numeral k) = Fin (numeral k)"
  using round_double_nat[of "numeral k"] by simp

lemma is_decimal_low: "c < 1632 \<Longrightarrow> is_decimal c = is_ascii_digit c"
  by (auto simp: is_decimal_def nd_zeros_def is_ascii_digit_def)

lemmas char_classes = is_ascii_alnum_def is_ascii_alpha_def is_ascii_digit_def is_space_def
  is_ascii_space_def is_word_def lower_char_def is_decimal_low

lemmas text_ops = lit_def lower_def strip_def strip_with_def startswith_def endswith_def
  before_final_newline_def at_line_end_def

lemmas float_ops = float_of_str_def to_ascii_number_def parse_float_ascii_def split_sign_def
  parse_exponent_def digits_value_def pow_int_def round_double_numeral

section \<open>Content classifier: the example row\<close>

text \<open>
  C1. The content classifier, applied to a table whose single row is
  \<open>["LN-102", "Jane Q Public", "9876543210", "123456789012", "50000", "2 acres",
  "tractor purchase"]\<close> (under any column labels), returns exactly one mapping:
  \<open>loaner_id\<close> is \<open>"LN-102"\<close>, \<open>fullname\<close> is \<open>"Jane Q Public"\<close>, \<open>mobile_no\<close> is
  \<open>"9876543210"\<close>, \<open>loaner_adhar\<close> is \<open>"123456789012"\<close>, \<open>total_amount\<close> is the float
  50000, \<open>total_land\<close> is \<open>"2 acres"\<close> and \<open>descrition\<close> is \<open>"tractor purchase"\<close>.
\<close>

theorem classifier_example_row:
  "extract_rows_by_content \<lparr>columns = cols, rows = [[PStr (lit ''LN-102''),
       PStr (lit ''Jane Q Public''), PStr (lit ''9876543210''), PStr (lit ''123456789012''),
       PStr (lit ''50000''), PStr (lit ''2 acres''), PStr (lit ''tractor purchase'')]]\<rparr> =
   Some [[(lit ''loaner_id'', PStr (lit ''LN-102'')),
          (lit ''fullname'', PStr (lit ''Jane Q Public'')),
          (lit ''mobile_no'', PStr (lit ''9876543210'')),
          (lit ''loaner_adhar'', PStr (lit ''123456789012'')),
          (lit ''total_amount'', PFloat (Fin 50000)),
          (lit ''total_land'', PStr (lit ''2 acres'')),
          (lit ''descrition'', PStr (lit ''tractor purchase''))]]"
  by (simp add: extract_rows_by_content_def dropna_all_def is_na_def classify_row_def
      classify_value_def assign_text_def assign_numeric_step_def REQUIRED_FIELDS_def get_def
      land_units_def matches_loaner_id_def matches_numeric_def Let_def
      char_classes text_ops float_ops show_nat.simps)

theorem classifier_example_row_witness:
  "extract_rows_by_content \<lparr>columns = [], rows = [[PStr (lit ''LN-102''),
       PStr (lit ''Jane Q Public''), PStr (lit ''9876543210''), PStr (lit ''123456789012''),
       PStr (lit ''50000''), PStr (lit ''2 acres''), PStr (lit ''tractor purchase'')]]\<rparr> =
   Some [[(lit ''loaner_id'', PStr (lit ''LN-102'')),
          (lit ''fullname'', PStr (lit ''Jane Q Public'')),
          (lit ''mobile_no'', PStr (lit ''9876543210'')),
          (lit ''loaner_adhar'', PStr (lit ''123456789012'')),
          (lit ''total_amount'', PFloat (Fin 50000)),
          (lit ''total_land'', PStr (lit ''2 acres'')),
          (lit ''descrition'', PStr (lit ''tractor purchase''))]]"
  by (rule classifier_example_row)

end
